theory Spec2Isabelle
  imports Main
begin

section \<open>JavaScript values\<close>

text \<open>
  \<^verbatim>\<open>src/App.tsx\<close> holds two versions of the component. The model follows the later
  one, which has \<^verbatim>\<open>mapApiErrorMessage\<close>, the source context, the missing-question list
  and the thank-you screen; \<^verbatim>\<open>apiFetch\<close> is the same in both.
\<close>

text \<open>
  Text is a \<open>string\<close> whose characters are the code units below 256 (Latin-1), which
  covers every literal of \<^verbatim>\<open>App.tsx\<close>. A value that may be \<^verbatim>\<open>null\<close> or
  \<^verbatim>\<open>undefined\<close> is an \<open>option\<close>. Identifiers are JavaScript numbers holding
  integers, so \<open>int\<close>; the only falsy one is \<open>0\<close>.
\<close>

type_synonym timestamp = int

definition truthy_num :: "int option \<Rightarrow> bool" where
  "truthy_num v = (case v of None \<Rightarrow> False | Some n \<Rightarrow> n \<noteq> 0)"

definition truthy_str :: "string option \<Rightarrow> bool" where
  "truthy_str v = (case v of None \<Rightarrow> False | Some t \<Rightarrow> t \<noteq> [])"

text \<open>\<^verbatim>\<open>a || b\<close> on optional text: \<open>a\<close> when it is truthy, else \<open>b\<close>.\<close>

definition or_else :: "string option \<Rightarrow> string option \<Rightarrow> string option" where
  "or_else a b = (if truthy_str a then a else b)"

text \<open>\<^verbatim>\<open>t || d\<close> for a text \<open>t\<close> and a default \<open>d\<close>: the empty text is falsy.\<close>

definition or_default :: "string \<Rightarrow> string \<Rightarrow> string" where
  "or_default t d = (if t \<noteq> [] then t else d)"

text \<open>\<^verbatim>\<open>String.prototype.toLowerCase\<close> on Latin-1 code units.\<close>

definition toLowerCaseChar :: "char \<Rightarrow> char" where
  "toLowerCaseChar c =
     (let n = (of_char c :: nat)
      in if (65 \<le> n \<and> n \<le> 90) \<or> (192 \<le> n \<and> n \<le> 222 \<and> n \<noteq> 215)
         then char_of (n + 32) else c)"

definition toLowerCase :: "string \<Rightarrow> string" where
  "toLowerCase t = map toLowerCaseChar t"

fun startsWith :: "string \<Rightarrow> string \<Rightarrow> bool" where
  "startsWith t [] = True"
| "startsWith [] (c # p) = False"
| "startsWith (d # t) (c # p) = (d = c \<and> startsWith t p)"

text \<open>\<^verbatim>\<open>String.prototype.includes\<close>: \<open>p\<close> occurs in \<open>t\<close> as a contiguous block.\<close>

fun str_includes :: "string \<Rightarrow> string \<Rightarrow> bool" where
  "str_includes [] p = (p = [])"
| "str_includes (c # t) p = (startsWith (c # t) p \<or> str_includes t p)"

text \<open>
  \<^verbatim>\<open>/p/i.test(t)\<close> for a pattern \<open>p\<close> of plain lower-case ASCII characters: the
  pattern occurs in \<open>t\<close> up to letter case.
\<close>

definition test_i :: "string \<Rightarrow> string \<Rightarrow> bool" where
  "test_i p t = str_includes (toLowerCase t) p"

text \<open>\<^verbatim>\<open>Array.prototype.join\<close> on texts.\<close>

fun join :: "string \<Rightarrow> string list \<Rightarrow> string" where
  "join sep [] = []"
| "join sep [t] = t"
| "join sep (t # u # ts) = t @ sep @ join sep (u # ts)"

section \<open>Data model\<close>

record Option =
  o_id :: int
  o_texto :: string
  o_ativo :: bool

record Question =
  q_id :: int
  q_texto :: string
  q_ordem :: int
  q_options :: "Option list"

record SurveyStructure =
  s_id :: int
  s_titulo :: string
  s_descricao :: "string option"
  s_description :: "string option"
  s_ativo :: bool
  s_dataValidade :: "string option"
  s_questions :: "Question list"

record VoteResponse =
  voteId :: int
  sessionId :: "int option"
  antifraudToken :: "string option"

record ApiError =
  e_status :: "int option"
  e_message :: string
  e_details :: "string option"

text \<open>
  The seven source, geo and device fields of \<^verbatim>\<open>VotePayload\<close>; the record kept in
  local storage holds exactly these.
\<close>

record SourceContext =
  source :: "string option"
  country :: "string option"
  state :: "string option"
  city :: "string option"
  deviceType :: "string option"
  operatingSystem :: "string option"
  browser :: "string option"

record VotePayload = SourceContext +
  p_surveyId :: int
  p_questionId :: int
  p_optionId :: "int option"
  p_status :: string
  p_startedAt :: timestamp
  p_completedAt :: timestamp

section \<open>User-facing messages\<close>

definition msg_not_found :: string where
  "msg_not_found = ''Pesquisa n'' @ [CHR 0xE3] @ ''o encontrada ou expirada.''"

definition msg_action_failed :: string where
  "msg_action_failed =
     ''N'' @ [CHR 0xE3] @ ''o foi poss'' @ [CHR 0xED] @ ''vel completar a a''
       @ [CHR 0xE7, CHR 0xE3] @ ''o.''"

definition msg_no_url :: string where
  "msg_no_url = ''URL da pesquisa n'' @ [CHR 0xE3] @ ''o informada. Use /surveys/{id}.''"

definition msg_not_active :: string where
  "msg_not_active = ''Esta pesquisa n'' @ [CHR 0xE3] @ ''o est'' @ [CHR 0xE1] @ '' ativa.''"

definition msg_load_failed :: string where
  "msg_load_failed =
     ''N'' @ [CHR 0xE3] @ ''o foi poss'' @ [CHR 0xED]
       @ ''vel carregar a pesquisa selecionada.''"

definition msg_select_first :: string where
  "msg_select_first =
     ''Selecione uma pergunta e uma op'' @ [CHR 0xE7, CHR 0xE3] @ ''o para votar.''"

definition msg_answer_all :: string where
  "msg_answer_all = ''Responda todas as perguntas para enviar seu voto.''"

definition msg_too_many :: string where
  "msg_too_many =
     ''Muitas requisi'' @ [CHR 0xE7, CHR 0xF5] @ ''es. Tente novamente em 1 minuto.''"

definition msg_already_voted :: string where
  "msg_already_voted =
     ''Voc'' @ [CHR 0xEA] @ '' j'' @ [CHR 0xE1]
       @ '' votou recentemente nesta pesquisa neste dispositivo.''"

definition msg_expired :: string where
  "msg_expired = ''Esta pesquisa expirou.''"

definition msg_vote_failed :: string where
  "msg_vote_failed =
     ''N'' @ [CHR 0xE3] @ ''o foi poss'' @ [CHR 0xED] @ ''vel registrar seu voto.''"

definition pat_already_voted :: string where
  "pat_already_voted = ''j'' @ [CHR 0xE1] @ '' recebemos um voto''"

section \<open>API client: \<^verbatim>\<open>apiFetch\<close>\<close>

text \<open>
  A parsed JSON body. Numbers are integers here: the client never inspects one. An
  object is its members in the order of the text, a later member overriding an earlier
  one of the same name, as \<^verbatim>\<open>JSON.parse\<close> does.
\<close>

datatype json =
    JNull
  | JBool bool
  | JNum int
  | JStr string
  | JArr "json list"
  | JObj "(string \<times> json) list"

text \<open>
  \<^verbatim>\<open>payload && typeof payload === 'object' ? payload : null\<close> followed by the
  property read \<^verbatim>\<open>body?.name\<close>: only an object has the member; an array is an
  object without it.
\<close>

definition member :: "json \<Rightarrow> string \<Rightarrow> json option" where
  "member payload name =
     (case payload of JObj ms \<Rightarrow> map_of (rev ms) name | _ \<Rightarrow> None)"

text \<open>
  An element of a joined array: \<^verbatim>\<open>null\<close> gives the empty text, a string itself,
  anything else the runtime's \<^verbatim>\<open>ToString\<close>, which is a parameter.
\<close>

definition join_element :: "(json \<Rightarrow> string) \<Rightarrow> json \<Rightarrow> string" where
  "join_element toStr j = (case j of JNull \<Rightarrow> [] | JStr t \<Rightarrow> t | _ \<Rightarrow> toStr j)"

record Response =
  r_status :: int
  r_payload :: json

text \<open>
  \<^verbatim>\<open>response.ok\<close> of the Fetch API. \<open>r_payload\<close> is \<open>JNull\<close> when the body is not
  JSON (the \<^verbatim>\<open>catch\<close> around \<^verbatim>\<open>response.json()\<close>).
\<close>

definition r_ok :: "Response \<Rightarrow> bool" where
  "r_ok r = (200 \<le> r_status r \<and> r_status r \<le> 299)"

definition rawMessage :: "json \<Rightarrow> string option" where
  "rawMessage payload =
     (case member payload ''message'' of Some (JStr t) \<Rightarrow> Some t | _ \<Rightarrow> None)"

definition error_message :: "int \<Rightarrow> json \<Rightarrow> string" where
  "error_message st payload =
     (if st = 404 then msg_not_found
      else (case rawMessage payload of
              Some t \<Rightarrow> or_default t msg_action_failed
            | None \<Rightarrow> msg_action_failed))"

definition error_details :: "(json \<Rightarrow> string) \<Rightarrow> json \<Rightarrow> string option" where
  "error_details toStr payload =
     (case member payload ''details'' of
        Some (JStr t) \<Rightarrow> Some t
      | Some (JArr js) \<Rightarrow> Some (join '' | '' (map (join_element toStr) js))
      | _ \<Rightarrow> None)"

text \<open>The result of \<^verbatim>\<open>apiFetch\<close> on a response: the thrown error, or the payload.\<close>

definition apiFetch :: "(json \<Rightarrow> string) \<Rightarrow> Response \<Rightarrow> ApiError + json" where
  "apiFetch toStr r =
     (if \<not> r_ok r
      then Inl \<lparr> e_status = Some (r_status r),
                 e_message = error_message (r_status r) (r_payload r),
                 e_details = error_details toStr (r_payload r) \<rparr>
      else Inr (r_payload r))"

section \<open>Failure messages of a submission: \<^verbatim>\<open>mapApiErrorMessage\<close>\<close>

definition mapApiErrorMessage :: "ApiError \<Rightarrow> ApiError" where
  "mapApiErrorMessage error =
     (let normalized = toLowerCase (e_message error)
      in if e_status error = Some 429 then error\<lparr>e_message := msg_too_many\<rparr>
         else if str_includes normalized pat_already_voted \<or> e_status error = Some 409
           then error\<lparr>e_message := msg_already_voted\<rparr>
         else if str_includes normalized ''expirada''
           then error\<lparr>e_message := msg_expired\<rparr>
         else error)"

section \<open>Context collector\<close>

text \<open>
  What a submission attempt reads from its surroundings: the query parameters of the
  address, the browser's identification string, the record in local storage and the
  clock.
\<close>

record Env =
  param_source :: "string option"
  param_utm_source :: "string option"
  param_country :: "string option"
  param_state :: "string option"
  param_city :: "string option"
  userAgent :: string
  storedSourceContext :: "SourceContext option"
  now_started :: timestamp
  now_completed :: timestamp

definition getSourceParam :: "Env \<Rightarrow> string option" where
  "getSourceParam env = or_else (param_source env) (param_utm_source env)"

definition getDeviceType :: "string \<Rightarrow> string" where
  "getDeviceType ua =
     (if test_i ''mobi'' ua \<or> test_i ''android'' ua then ''mobile'' else ''desktop'')"

definition getOperatingSystem :: "string \<Rightarrow> string option" where
  "getOperatingSystem ua =
     (if test_i ''android'' ua then Some ''Android''
      else if test_i ''iphone'' ua \<or> test_i ''ipad'' ua \<or> test_i ''ipod'' ua then Some ''iOS''
      else if test_i ''windows'' ua then Some ''Windows''
      else if test_i ''mac os x'' ua then Some ''macOS''
      else if test_i ''linux'' ua then Some ''Linux''
      else None)"

definition getBrowser :: "string \<Rightarrow> string option" where
  "getBrowser ua =
     (if test_i ''chrome/'' ua \<and> \<not> test_i ''edg/'' ua \<and> \<not> test_i ''opr/'' ua
        then Some ''Chrome''
      else if test_i ''edg/'' ua then Some ''Edge''
      else if test_i ''safari'' ua \<and> \<not> test_i ''chrome/'' ua then Some ''Safari''
      else if test_i ''firefox/'' ua then Some ''Firefox''
      else if test_i ''opr/'' ua then Some ''Opera''
      else None)"

text \<open>\<^verbatim>\<open>storedSourceContext?.field\<close>.\<close>

definition stored_field ::
  "SourceContext option \<Rightarrow> (SourceContext \<Rightarrow> string option) \<Rightarrow> string option" where
  "stored_field st f = (case st of None \<Rightarrow> None | Some c \<Rightarrow> f c)"

text \<open>\<^verbatim>\<open>fresh || storedSourceContext?.field || null\<close>.\<close>

definition pick :: "string option \<Rightarrow> string option \<Rightarrow> string option" where
  "pick fresh st = or_else (or_else fresh st) None"

text \<open>
  The \<^verbatim>\<open>source\<close>, \<^verbatim>\<open>geo\<close> and \<^verbatim>\<open>device\<close> values that \<^verbatim>\<open>handleVote\<close>
  computes before its loop, as the one object \<^verbatim>\<open>{ source, ...geo, ...device }\<close>.
\<close>

definition sourceContext :: "Env \<Rightarrow> SourceContext" where
  "sourceContext env =
     (let st = storedSourceContext env
      in \<lparr> source = pick (getSourceParam env) (stored_field st source),
           country = pick (param_country env) (stored_field st country),
           state = pick (param_state env) (stored_field st state),
           city = pick (param_city env) (stored_field st city),
           deviceType = pick (Some (getDeviceType (userAgent env))) (stored_field st deviceType),
           operatingSystem =
             pick (getOperatingSystem (userAgent env)) (stored_field st operatingSystem),
           browser = pick (getBrowser (userAgent env)) (stored_field st browser) \<rparr>)"

section \<open>Component state\<close>

text \<open>
  The \<^verbatim>\<open>useState\<close> cells and the \<^verbatim>\<open>voteStartedAtRef\<close> of \<^verbatim>\<open>App\<close>. The state
  updates of one synchronous block are applied together (React batches them), so each
  block below is one state transformer.
\<close>

record AppState =
  surveyId :: "int option"
  "structure" :: "SurveyStructure option"
  selectedOptions :: "int \<rightharpoonup> int"
  structureLoading :: bool
  submitting :: bool
  errorMessage :: "string option"
  errorDetails :: "string option"
  errorStatus :: "int option"
  voteResults :: "VoteResponse list"
  voteStartedAtRef :: "timestamp option"
  missingQuestionIds :: "int list"
  showThankYou :: bool

definition initialState :: "int option \<Rightarrow> AppState" where
  "initialState pathId =
     \<lparr> surveyId = pathId, structure = None, selectedOptions = Map.empty,
       structureLoading = False, submitting = False, errorMessage = None,
       errorDetails = None, errorStatus = None, voteResults = [],
       voteStartedAtRef = None, missingQuestionIds = [], showThankYou = False \<rparr>"

definition handlePopstate :: "int option \<Rightarrow> AppState \<Rightarrow> AppState" where
  "handlePopstate pathId s =
     s\<lparr> surveyId := pathId, selectedOptions := Map.empty, voteResults := [],
        errorMessage := None, errorDetails := None, errorStatus := None,
        voteStartedAtRef := None, missingQuestionIds := [], showThankYou := False \<rparr>"

section \<open>Survey loader: \<^verbatim>\<open>fetchStructure\<close>\<close>

text \<open>
  The part of \<^verbatim>\<open>fetchStructure\<close> that runs before the request is awaited. The
  second component tells whether a request was issued.
\<close>

definition fetchStructure_begin :: "AppState \<Rightarrow> AppState \<times> bool" where
  "fetchStructure_begin s =
     (if \<not> truthy_num (surveyId s)
      then (s\<lparr> structure := None, errorMessage := Some msg_no_url, errorStatus := None \<rparr>,
            False)
      else (s\<lparr> structureLoading := True, structure := None, selectedOptions := Map.empty,
               errorMessage := None, errorDetails := None, errorStatus := None,
               voteResults := [], missingQuestionIds := [], showThankYou := False \<rparr>,
            True))"

text \<open>
  The part that runs when the request settles, with the result of \<^verbatim>\<open>apiFetch\<close>
  (the payload read at its declared type \<^verbatim>\<open>SurveyStructure\<close>) and the clock.
\<close>

definition fetchStructure_settle ::
  "ApiError + SurveyStructure \<Rightarrow> timestamp \<Rightarrow> AppState \<Rightarrow> AppState" where
  "fetchStructure_settle outcome now s =
     (case outcome of
        Inr data \<Rightarrow>
          (let isActive = (s_ativo data = True)
           in if \<not> isActive
              then s\<lparr> structure := None, errorMessage := Some msg_not_active,
                      errorDetails := None, errorStatus := None,
                      structureLoading := False \<rparr>
              else s\<lparr> voteStartedAtRef := Some now, structure := Some data,
                      structureLoading := False \<rparr>)
      | Inl err \<Rightarrow>
          s\<lparr> errorMessage := Some (or_default (e_message err) msg_load_failed),
             errorDetails := or_else (e_details err) None,
             errorStatus := e_status err,
             structureLoading := False \<rparr>)"

section \<open>Answer selection\<close>

definition onChange :: "int \<Rightarrow> int \<Rightarrow> AppState \<Rightarrow> AppState" where
  "onChange questionId optionId s =
     s\<lparr> selectedOptions := (selectedOptions s)(questionId \<mapsto> optionId),
        voteResults := [], errorMessage := None, errorDetails := None,
        missingQuestionIds := filter (\<lambda>i. i \<noteq> questionId) (missingQuestionIds s) \<rparr>"

section \<open>Vote submission controller: \<^verbatim>\<open>handleVote\<close>\<close>

text \<open>
  The checks made before any request. The second component is the loaded structure
  when the attempt goes on to submit, \<open>None\<close> when it was rejected.
\<close>

definition handleVote_begin :: "AppState \<Rightarrow> AppState \<times> SurveyStructure option" where
  "handleVote_begin s =
     (case structure s of
        None \<Rightarrow>
          (s\<lparr> errorMessage := Some msg_select_first, errorDetails := None,
              errorStatus := None \<rparr>, None)
      | Some st \<Rightarrow>
          if \<not> truthy_num (surveyId s)
          then (s\<lparr> errorMessage := Some msg_select_first, errorDetails := None,
                   errorStatus := None \<rparr>, None)
          else
            (let unanswered =
                   filter (\<lambda>question. \<not> truthy_num (selectedOptions s (q_id question)))
                     (s_questions st)
             in if length unanswered > 0
                then (s\<lparr> errorMessage := Some msg_answer_all, errorDetails := None,
                         errorStatus := None,
                         missingQuestionIds := map q_id unanswered \<rparr>, None)
                else (s\<lparr> submitting := True, errorMessage := None, errorDetails := None,
                         voteResults := [], missingQuestionIds := [],
                         showThankYou := False \<rparr>, Some st)))"

definition buildPayload ::
  "SurveyStructure \<Rightarrow> (int \<rightharpoonup> int) \<Rightarrow> SourceContext \<Rightarrow> timestamp \<Rightarrow> timestamp
     \<Rightarrow> Question \<Rightarrow> VotePayload" where
  "buildPayload st selected ctx startedAtIso completedAtIso question =
     SourceContext.extend ctx
       \<lparr> p_surveyId = s_id st, p_questionId = q_id question,
         p_optionId = selected (q_id question), p_status = ''COMPLETED'',
         p_startedAt = startedAtIso, p_completedAt = completedAtIso \<rparr>"

text \<open>
  What crosses the network during an attempt, in the order it happens: a request leaves,
  its response arrives.
\<close>

datatype net_event = Request VotePayload | Response "ApiError + VoteResponse"

text \<open>
  The vote endpoint as \<^verbatim>\<open>apiFetch\<close> sees it: from its present state and a payload, the
  result of the call (a thrown error or a \<^verbatim>\<open>VoteResponse\<close>) and its next state.
\<close>

type_synonym 'w server = "'w \<Rightarrow> VotePayload \<Rightarrow> (ApiError + VoteResponse) \<times> 'w"

text \<open>
  The \<^verbatim>\<open>for\<close> loop over the questions: each request is awaited before the next is
  built; a thrown error leaves the loop at once.
\<close>

fun submit_loop ::
  "'w server \<Rightarrow> (Question \<Rightarrow> VotePayload) \<Rightarrow> Question list \<Rightarrow> VoteResponse list \<Rightarrow> 'w
     \<Rightarrow> (ApiError + VoteResponse list) \<times> 'w \<times> net_event list" where
  "submit_loop post payload [] responses w = (Inr responses, w, [])"
| "submit_loop post payload (question # rest) responses w =
     (case post w (payload question) of
        (Inl err, w') \<Rightarrow> (Inl err, w', [Request (payload question), Response (Inl err)])
      | (Inr result, w') \<Rightarrow>
          (case submit_loop post payload rest (responses @ [result]) w' of
             (outcome, w'', trace) \<Rightarrow>
               (outcome, w'',
                Request (payload question) # Response (Inr result) # trace)))"

text \<open>What the \<^verbatim>\<open>try\<close> block leaves in the state once the loop has ended.\<close>

definition handleVote_settle ::
  "ApiError + VoteResponse list \<Rightarrow> AppState \<Rightarrow> AppState" where
  "handleVote_settle outcome s =
     (case outcome of
        Inr responses \<Rightarrow>
          s\<lparr> voteResults := responses, showThankYou := True, submitting := False \<rparr>
      | Inl error \<Rightarrow>
          (let err = mapApiErrorMessage error
           in s\<lparr> errorMessage := Some (or_default (e_message err) msg_vote_failed),
                 errorDetails := or_else (e_details err) None,
                 errorStatus := e_status err,
                 submitting := False \<rparr>))"

text \<open>
  One whole attempt: the state it leaves, the server's state, the network trace, and
  the context written to local storage (\<open>None\<close> when nothing was written).
\<close>

record 'w Attempt =
  a_state :: AppState
  a_server :: 'w
  a_trace :: "net_event list"
  a_persisted :: "SourceContext option"

definition handleVote :: "'w server \<Rightarrow> Env \<Rightarrow> AppState \<Rightarrow> 'w \<Rightarrow> 'w Attempt" where
  "handleVote post env s w =
     (case handleVote_begin s of
        (s1, None) \<Rightarrow>
          \<lparr> a_state = s1, a_server = w, a_trace = [], a_persisted = None \<rparr>
      | (s1, Some st) \<Rightarrow>
          (let ctx = sourceContext env;
               startedAtIso =
                 (case voteStartedAtRef s of Some t \<Rightarrow> t | None \<Rightarrow> now_started env);
               completedAtIso = now_completed env
           in case submit_loop post
                     (buildPayload st (selectedOptions s) ctx startedAtIso completedAtIso)
                     (s_questions st) [] w of
                (outcome, w', trace) \<Rightarrow>
                  \<lparr> a_state = handleVote_settle outcome s1, a_server = w',
                    a_trace = trace,
                    a_persisted = (case outcome of Inr _ \<Rightarrow> Some ctx | Inl _ \<Rightarrow> None) \<rparr>))"

section \<open>View\<close>

text \<open>
  Which screen \<^verbatim>\<open>App\<close> returns and, on the form screen, which panels it holds; the
  markup inside a panel is left out.
\<close>

record FormPanels =
  panel_loading :: bool
  panel_form :: "SurveyStructure option"
  panel_skeleton :: bool
  panel_success :: "VoteResponse list option"
  panel_error :: "(string \<times> string option) option"

datatype View = ThankYouPage | NotFoundPage | FormPage FormPanels

definition render :: "AppState \<Rightarrow> View" where
  "render s =
     (if showThankYou s then ThankYouPage
      else if errorStatus s = Some 404 then NotFoundPage
      else FormPage
        \<lparr> panel_loading = structureLoading s,
          panel_form = structure s,
          panel_skeleton = (structureLoading s \<and> structure s = None),
          panel_success =
            (if length (voteResults s) > 0 then Some (voteResults s) else None),
          panel_error =
            (case errorMessage s of
               None \<Rightarrow> None
             | Some m \<Rightarrow>
                 if m \<noteq> [] then Some (m, or_else (errorDetails s) None) else None) \<rparr>)"

text \<open>The five outcomes of the view.\<close>

definition success_shown :: "View \<Rightarrow> bool" where
  "success_shown v = (case v of FormPage p \<Rightarrow> panel_success p \<noteq> None | _ \<Rightarrow> False)"

definition error_shown :: "View \<Rightarrow> bool" where
  "error_shown v = (case v of FormPage p \<Rightarrow> panel_error p \<noteq> None | _ \<Rightarrow> False)"

definition form_shown :: "View \<Rightarrow> bool" where
  "form_shown v = (case v of FormPage p \<Rightarrow> True | _ \<Rightarrow> False)"

definition is_NotFound :: "View \<Rightarrow> bool" where
  "is_NotFound v = (v = NotFoundPage)"

definition is_ThankYou :: "View \<Rightarrow> bool" where
  "is_ThankYou v = (v = ThankYouPage)"

definition is_FormError :: "View \<Rightarrow> bool" where
  "is_FormError v = (form_shown v \<and> error_shown v \<and> \<not> success_shown v)"

definition is_FormSuccess :: "View \<Rightarrow> bool" where
  "is_FormSuccess v = (form_shown v \<and> success_shown v \<and> \<not> error_shown v)"

definition is_FormNeutral :: "View \<Rightarrow> bool" where
  "is_FormNeutral v = (form_shown v \<and> \<not> success_shown v \<and> \<not> error_shown v)"

definition active_outcomes :: "View \<Rightarrow> nat" where
  "active_outcomes v =
     length (filter (\<lambda>b. b)
       [is_NotFound v, is_ThankYou v, is_FormError v, is_FormSuccess v, is_FormNeutral v])"


section \<open>The component as an event system\<close>

text \<open>
  The component state together with what is in flight: the identifiers of the structure
  requests not yet settled, oldest first, and the number of submission attempts whose
  requests have not yet settled.
\<close>

record Sys =
  app :: AppState
  loads :: "int list"
  votes :: nat

datatype Event =
    Popstate "int option"
  | StructureSettled nat "ApiError + SurveyStructure" timestamp
  | OptionChange int int
  | VoteClick
  | VoteSettled "ApiError + VoteResponse list"

text \<open>
  The effect with dependency \<^verbatim>\<open>[surveyId]\<close>: it starts \<^verbatim>\<open>fetchStructure\<close>, and a
  request that was issued joins the ones in flight.
\<close>

definition surveyId_effect :: "AppState \<Rightarrow> Sys \<Rightarrow> Sys" where
  "surveyId_effect a sys =
     (case fetchStructure_begin a of
        (a1, issued) \<Rightarrow>
          sys\<lparr> app := a1,
               loads := (case surveyId a of
                           Some i \<Rightarrow> if issued then loads sys @ [i] else loads sys
                         | None \<Rightarrow> loads sys) \<rparr>)"

text \<open>The first render: the identifier comes from the path, and the effect runs.\<close>

definition mount :: "int option \<Rightarrow> Sys" where
  "mount pathId =
     surveyId_effect (initialState pathId)
       \<lparr> app = initialState pathId, loads = [], votes = 0 \<rparr>"

text \<open>
  One event. A navigation runs \<^verbatim>\<open>handlePopstate\<close>, and the effect after it when the
  identifier changed. A structure request in flight settles at any time, in any order.
\<close>

fun step :: "Event \<Rightarrow> Sys \<Rightarrow> Sys" where
  "step (Popstate pathId) sys =
     (let a = handlePopstate pathId (app sys)
      in if pathId = surveyId (app sys) then sys\<lparr> app := a \<rparr>
         else surveyId_effect a sys)"
| "step (StructureSettled k outcome now) sys =
     (if k < length (loads sys)
      then sys\<lparr> app := fetchStructure_settle outcome now (app sys),
                loads := take k (loads sys) @ drop (Suc k) (loads sys) \<rparr>
      else sys)"
| "step (OptionChange questionId optionId) sys =
     sys\<lparr> app := onChange questionId optionId (app sys) \<rparr>"
| "step VoteClick sys =
     (case handleVote_begin (app sys) of
        (a, None) \<Rightarrow> sys\<lparr> app := a \<rparr>
      | (a, Some st) \<Rightarrow> sys\<lparr> app := a, votes := Suc (votes sys) \<rparr>)"
| "step (VoteSettled outcome) sys =
     (if votes sys > 0
      then sys\<lparr> app := handleVote_settle outcome (app sys), votes := votes sys - 1 \<rparr>
      else sys)"

definition run :: "Event list \<Rightarrow> Sys \<Rightarrow> Sys" where
  "run es sys = foldl (\<lambda>s e. step e s) sys es"

inductive reachable :: "Sys \<Rightarrow> bool" where
  reachable_mount: "reachable (mount pathId)"
| reachable_step: "reachable sys \<Longrightarrow> reachable (step e sys)"

section \<open>Notions used to state the properties\<close>

text \<open>A question that the selection map leaves out, or maps to the option id \<open>0\<close>.\<close>

definition unanswered_or_zero :: "(int \<rightharpoonup> int) \<Rightarrow> Question \<Rightarrow> bool" where
  "unanswered_or_zero selected question =
     (selected (q_id question) = None \<or> selected (q_id question) = Some 0)"

text \<open>The payload function of one attempt, as \<^verbatim>\<open>handleVote\<close> builds it.\<close>

definition attempt_payload :: "Env \<Rightarrow> AppState \<Rightarrow> SurveyStructure \<Rightarrow> Question \<Rightarrow> VotePayload" where
  "attempt_payload env s st =
     buildPayload st (selectedOptions s) (sourceContext env)
       (case voteStartedAtRef s of Some t \<Rightarrow> t | None \<Rightarrow> now_started env)
       (now_completed env)"

text \<open>What the endpoint answers to payloads sent one after the other.\<close>

fun replies :: "'w server \<Rightarrow> 'w \<Rightarrow> VotePayload list \<Rightarrow> (ApiError + VoteResponse) list" where
  "replies post w [] = []"
| "replies post w (p # ps) = (case post w p of (x, w') \<Rightarrow> x # replies post w' ps)"

text \<open>
  The trace of requests sent one at a time, each followed by its response before the
  next leaves.
\<close>

fun exchange :: "VotePayload list \<Rightarrow> (ApiError + VoteResponse) list \<Rightarrow> net_event list" where
  "exchange (p # ps) (x # xs) = Request p # Response x # exchange ps xs"
| "exchange ps xs = []"

text \<open>The requests of a trace, in the order they were sent.\<close>

fun requests :: "net_event list \<Rightarrow> VotePayload list" where
  "requests [] = []"
| "requests (Request p # t) = p # requests t"
| "requests (Response x # t) = requests t"




text \<open>
  A value that counts as given: not \<^verbatim>\<open>null\<close> and not the empty text. The merge of a
  fresh value over a stored one takes the fresh one when it is given, else the stored
  one when it is given, else nothing.
\<close>

definition nonempty_or_absent :: "string option \<Rightarrow> string option" where
  "nonempty_or_absent v = (case v of Some t \<Rightarrow> if t \<noteq> [] then Some t else None | None \<Rightarrow> None)"

definition prefer_fresh :: "string option \<Rightarrow> string option \<Rightarrow> string option" where
  "prefer_fresh fresh st =
     (case nonempty_or_absent fresh of Some t \<Rightarrow> Some t | None \<Rightarrow> nonempty_or_absent st)"




section \<open>Example data\<close>

definition example_question :: "int \<Rightarrow> Question" where
  "example_question i =
     \<lparr> q_id = i, q_texto = ''Como foi o atendimento?'', q_ordem = i,
       q_options = [\<lparr> o_id = 0, o_texto = ''Bom'', o_ativo = True \<rparr>,
                    \<lparr> o_id = 5, o_texto = ''Ruim'', o_ativo = True \<rparr>] \<rparr>"

definition example_survey :: "int \<Rightarrow> bool \<Rightarrow> SurveyStructure" where
  "example_survey i active =
     \<lparr> s_id = i, s_titulo = ''Atendimento'', s_descricao = None, s_description = None,
       s_ativo = active, s_dataValidade = None,
       s_questions = [example_question 1, example_question 2] \<rparr>"

definition example_state :: "(int \<rightharpoonup> int) \<Rightarrow> AppState" where
  "example_state selected =
     (initialState (Some 7))
       \<lparr> structure := Some (example_survey 7 True), selectedOptions := selected,
         voteStartedAtRef := Some 1000 \<rparr>"

definition example_env :: Env where
  "example_env =
     \<lparr> param_source = None, param_utm_source = None, param_country = None,
       param_state = None, param_city = Some ''SP'',
       userAgent = ''Mozilla/5.0 (X11; Linux x86_64) Firefox/128.0'',
       storedSourceContext =
         Some \<lparr> source = None, country = Some ''BR'', state = None, city = None,
                deviceType = None, operatingSystem = None, browser = None \<rparr>,
       now_started = 2000, now_completed = 3000 \<rparr>"

text \<open>A vote endpoint that accepts everything and numbers the votes.\<close>

definition server_ok :: "nat server" where
  "server_ok n p =
     (Inr \<lparr> voteId = int n, sessionId = None, antifraudToken = None \<rparr>, Suc n)"

text \<open>A vote endpoint that accepts its first request only.\<close>

definition server_once :: "nat server" where
  "server_once n p =
     (if n = 0 then Inr \<lparr> voteId = 1, sessionId = None, antifraudToken = None \<rparr>
      else Inl \<lparr> e_status = Some 500, e_message = ''boom'', e_details = None \<rparr>,
      Suc n)"

text \<open>A stand-in for the runtime's conversion of a non-string array element.\<close>

definition example_toStr :: "json \<Rightarrow> string" where
  "example_toStr j = ''[object Object]''"

definition example_response :: "int \<Rightarrow> json \<Rightarrow> Response" where
  "example_response st body = \<lparr> r_status = st, r_payload = body \<rparr>"

definition example_body :: json where
  "example_body =
     JObj [(''message'', JStr ''Survey 7 was removed''),
           (''details'', JArr [JStr ''a'', JStr ''b''])]"


text \<open>The address carries \<^verbatim>\<open>?country=\<close> with nothing after the sign.\<close>

definition example_env_empty_country :: Env where
  "example_env_empty_country = example_env\<lparr> param_country := Some [] \<rparr>"

text \<open>The survey of the path is loaded and nothing else has happened.\<close>

definition example_loaded :: Sys where
  "example_loaded = step (StructureSettled 0 (Inr (example_survey 7 True)) 1000) (mount (Some 7))"


text \<open>
  The component starts at \<^verbatim>\<open>/surveys/1\<close>; before that structure arrives the user
  navigates to \<^verbatim>\<open>/\<close>; the response then arrives and the form shows; the user picks
  the option with id \<open>0\<close> for question 2.
\<close>

definition example_stale :: Sys where
  "example_stale =
     run [Popstate None,
          StructureSettled 0 (Inr (example_survey 1 True)) 1000,
          OptionChange 2 0]
       (mount (Some 1))"

section \<open>Properties of the API client\<close>

lemmas example_defs = example_question_def example_survey_def example_state_def initialState_def

lemmas loader_defs = mount_def surveyId_effect_def fetchStructure_begin_def
  fetchStructure_settle_def handlePopstate_def initialState_def truthy_num_def

lemma join_elements_of_strings: "map (join_element toStr \<circ> JStr) ts = ts"
  by (induction ts) (simp_all add: join_element_def)

text \<open>
  Claim C5, as the code has it. For a non-success response the client throws
  \<open>{status, message, details}\<close>. The details are the body's \<^verbatim>\<open>details\<close> when that is
  a string, its elements joined with \<^verbatim>\<open>" | "\<close> when it is a list, and absent
  otherwise. The message is the fixed not-found text whenever the status is 404,
  whatever the body says; for any other status it is the body's \<^verbatim>\<open>message\<close> when that
  is a non-empty string, and the generic default otherwise.
\<close>

theorem error_normalizer_shape:
  assumes "\<not> r_ok r"
  shows "\<exists>e. apiFetch toStr r = Inl e
       \<and> e_status e = Some (r_status r)
       \<and> (\<forall>t. member (r_payload r) ''details'' = Some (JStr t) \<longrightarrow> e_details e = Some t)
       \<and> (\<forall>ts. member (r_payload r) ''details'' = Some (JArr (map JStr ts)) \<longrightarrow>
             e_details e = Some (join '' | '' ts))
       \<and> (\<forall>js. member (r_payload r) ''details'' = Some (JArr js) \<longrightarrow>
             e_details e = Some (join '' | '' (map (join_element toStr) js)))
       \<and> ((\<forall>t. member (r_payload r) ''details'' \<noteq> Some (JStr t))
          \<and> (\<forall>js. member (r_payload r) ''details'' \<noteq> Some (JArr js)) \<longrightarrow>
             e_details e = None)
       \<and> (r_status r = 404 \<longrightarrow> e_message e = msg_not_found)
       \<and> (\<forall>t. r_status r \<noteq> 404 \<and> member (r_payload r) ''message'' = Some (JStr t) \<and> t \<noteq> [] \<longrightarrow>
             e_message e = t)
       \<and> (r_status r \<noteq> 404
          \<and> (\<forall>t. member (r_payload r) ''message'' = Some (JStr t) \<longrightarrow> t = []) \<longrightarrow>
             e_message e = msg_action_failed)"
proof -
  let ?e = "\<lparr> e_status = Some (r_status r),
              e_message = error_message (r_status r) (r_payload r),
              e_details = error_details toStr (r_payload r) \<rparr>"
  have a: "apiFetch toStr r = Inl ?e" using assms by (simp add: apiFetch_def)
  have d1: "\<forall>t. member (r_payload r) ''details'' = Some (JStr t) \<longrightarrow> e_details ?e = Some t"
    by (simp add: error_details_def)
  have d2: "\<forall>js. member (r_payload r) ''details'' = Some (JArr js) \<longrightarrow>
             e_details ?e = Some (join '' | '' (map (join_element toStr) js))"
    by (simp add: error_details_def)
  have d3: "\<forall>ts. member (r_payload r) ''details'' = Some (JArr (map JStr ts)) \<longrightarrow>
             e_details ?e = Some (join '' | '' ts)"
    by (simp add: error_details_def join_elements_of_strings)
  have d4: "(\<forall>t. member (r_payload r) ''details'' \<noteq> Some (JStr t))
          \<and> (\<forall>js. member (r_payload r) ''details'' \<noteq> Some (JArr js)) \<longrightarrow>
             e_details ?e = None"
    by (auto simp: error_details_def split: option.splits json.splits)
  have m1: "r_status r = 404 \<longrightarrow> e_message ?e = msg_not_found"
    by (simp add: error_message_def)
  have m2: "\<forall>t. r_status r \<noteq> 404 \<and> member (r_payload r) ''message'' = Some (JStr t) \<and> t \<noteq> [] \<longrightarrow>
             e_message ?e = t"
    by (simp add: error_message_def rawMessage_def or_default_def)
  have m3: "r_status r \<noteq> 404
          \<and> (\<forall>t. member (r_payload r) ''message'' = Some (JStr t) \<longrightarrow> t = []) \<longrightarrow>
             e_message ?e = msg_action_failed"
    by (auto simp: error_message_def rawMessage_def or_default_def
        split: option.splits json.splits)
  have s: "e_status ?e = Some (r_status r)" by simp
  from a s d1 d3 d2 d4 m1 m2 m3 show ?thesis by blast
qed

theorem error_normalizer_shape_witness:
  "\<not> r_ok (example_response 500 example_body)
   \<and> apiFetch example_toStr (example_response 500 example_body)
       = Inl \<lparr> e_status = Some 500, e_message = ''Survey 7 was removed'',
               e_details = Some ''a | b'' \<rparr>"
proof -
  have h: "\<not> r_ok (example_response 500 example_body)"
    by (simp add: r_ok_def example_response_def)
  have st: "r_status (example_response 500 example_body) = 500"
    by (simp add: example_response_def)
  have ms: "member (r_payload (example_response 500 example_body)) ''message''
              = Some (JStr ''Survey 7 was removed'')"
    by (simp add: example_response_def example_body_def member_def)
  have ds: "member (r_payload (example_response 500 example_body)) ''details''
              = Some (JArr (map JStr [''a'', ''b'']))"
    by (simp add: example_response_def example_body_def member_def)
  from error_normalizer_shape [OF h, of example_toStr]
  obtain e where e: "apiFetch example_toStr (example_response 500 example_body) = Inl e"
    and s: "e_status e = Some (r_status (example_response 500 example_body))"
    and d: "\<forall>ts. member (r_payload (example_response 500 example_body)) ''details''
                  = Some (JArr (map JStr ts)) \<longrightarrow> e_details e = Some (join '' | '' ts)"
    and m: "\<forall>t. r_status (example_response 500 example_body) \<noteq> 404
              \<and> member (r_payload (example_response 500 example_body)) ''message'' = Some (JStr t)
              \<and> t \<noteq> [] \<longrightarrow> e_message e = t"
    by blast
  from s st have s': "e_status e = Some 500" by simp
  from d [rule_format, OF ds] have d': "e_details e = Some ''a | b''" by simp
  from m ms st have m': "e_message e = ''Survey 7 was removed''" by simp
  from s' d' m' have "e = \<lparr> e_status = Some 500, e_message = ''Survey 7 was removed'',
               e_details = Some ''a | b'' \<rparr>"
    by (cases e) simp
  with e h show ?thesis by simp
qed

text \<open>
  The body's message is not always passed through: on a 404 whose body carries a
  message, the thrown message is the not-found text.
\<close>

theorem body_message_passthrough_counterexample:
  "\<not> r_ok (example_response 404 example_body)
   \<and> rawMessage (r_payload (example_response 404 example_body)) = Some ''Survey 7 was removed''
   \<and> apiFetch example_toStr (example_response 404 example_body)
       = Inl \<lparr> e_status = Some 404, e_message = msg_not_found, e_details = Some ''a | b'' \<rparr>
   \<and> msg_not_found \<noteq> ''Survey 7 was removed''"
  by (simp add: apiFetch_def r_ok_def example_response_def example_body_def
        error_message_def rawMessage_def member_def error_details_def
        join_element_def msg_not_found_def)

section \<open>Properties of the context collector\<close>

lemma attempt_payload_questionId: "p_questionId (attempt_payload env s st q) = q_id q"
  by (simp add: attempt_payload_def buildPayload_def SourceContext.extend_def)

lemma attempt_payload_context:
  "SourceContext.truncate (attempt_payload env s st q) = sourceContext env"
  by (simp add: attempt_payload_def buildPayload_def SourceContext.extend_def SourceContext.truncate_def)

lemma pick_prefer_fresh: "pick fresh st = prefer_fresh fresh st"
  by (cases fresh; cases st)
     (simp_all add: pick_def or_else_def truthy_str_def prefer_fresh_def nonempty_or_absent_def)

lemma getDeviceType_nonempty: "getDeviceType ua \<noteq> []"
  by (simp add: getDeviceType_def)

text \<open>
  Claim C8, as the code has it. Every field of the context used for the vote payloads is
  the fresh value when that is given (not null and not empty), else the stored value
  when that is given, else absent; the device type is always the fresh one. Stored
  \<open>{country: "BR"}\<close> with fresh \<open>{country: null, city: "SP"}\<close> gives country
  \<open>"BR"\<close> and city \<open>"SP"\<close>. Each payload of an attempt carries this context.
\<close>

theorem context_merge:
  "source (sourceContext env)
     = prefer_fresh (getSourceParam env) (stored_field (storedSourceContext env) source)
   \<and> country (sourceContext env)
     = prefer_fresh (param_country env) (stored_field (storedSourceContext env) country)
   \<and> state (sourceContext env)
     = prefer_fresh (param_state env) (stored_field (storedSourceContext env) state)
   \<and> city (sourceContext env)
     = prefer_fresh (param_city env) (stored_field (storedSourceContext env) city)
   \<and> deviceType (sourceContext env) = Some (getDeviceType (userAgent env))
   \<and> operatingSystem (sourceContext env)
     = prefer_fresh (getOperatingSystem (userAgent env))
         (stored_field (storedSourceContext env) operatingSystem)
   \<and> browser (sourceContext env)
     = prefer_fresh (getBrowser (userAgent env)) (stored_field (storedSourceContext env) browser)
   \<and> (\<forall>c. storedSourceContext env = Some c \<and> country c = Some ''BR'' \<and> city c = None
          \<and> param_country env = None \<and> param_city env = Some ''SP'' \<longrightarrow>
          country (sourceContext env) = Some ''BR'' \<and> city (sourceContext env) = Some ''SP'')
   \<and> SourceContext.truncate (attempt_payload env s st q) = sourceContext env"
proof -
  have d: "deviceType (sourceContext env) = Some (getDeviceType (userAgent env))"
    using getDeviceType_nonempty [of "userAgent env"]
    by (simp add: sourceContext_def Let_def pick_def or_else_def truthy_str_def)
  have ex: "\<forall>c. storedSourceContext env = Some c \<and> country c = Some ''BR'' \<and> city c = None
          \<and> param_country env = None \<and> param_city env = Some ''SP'' \<longrightarrow>
          country (sourceContext env) = Some ''BR'' \<and> city (sourceContext env) = Some ''SP''"
    by (simp add: sourceContext_def Let_def pick_def or_else_def truthy_str_def stored_field_def)
  show ?thesis
    apply (intro conjI d ex attempt_payload_context)
    by (simp_all add: sourceContext_def Let_def pick_prefer_fresh)
qed

theorem context_merge_witness:
  "storedSourceContext example_env
     = Some \<lparr> source = None, country = Some ''BR'', state = None, city = None,
              deviceType = None, operatingSystem = None, browser = None \<rparr>
   \<and> param_country example_env = None \<and> param_city example_env = Some ''SP''
   \<and> country (sourceContext example_env) = Some ''BR''
   \<and> city (sourceContext example_env) = Some ''SP''"
proof -
  let ?c = "\<lparr> source = None, country = Some ''BR'', state = None, city = None,
              deviceType = None, operatingSystem = None, browser = None \<rparr>"
  have h1: "storedSourceContext example_env = Some ?c" by (simp add: example_env_def)
  have h2: "param_country example_env = None" by (simp add: example_env_def)
  have h3: "param_city example_env = Some ''SP''" by (simp add: example_env_def)
  from context_merge [of example_env "example_state Map.empty" "example_survey 7 True"
      "example_question 1"]
  have "\<forall>c. storedSourceContext example_env = Some c \<and> country c = Some ''BR'' \<and> city c = None
          \<and> param_country example_env = None \<and> param_city example_env = Some ''SP'' \<longrightarrow>
          country (sourceContext example_env) = Some ''BR''
          \<and> city (sourceContext example_env) = Some ''SP''"
    by (elim conjE)
  from this [rule_format, of ?c] h1 h2 h3
  have c: "country (sourceContext example_env) = Some ''BR''
          \<and> city (sourceContext example_env) = Some ''SP''"
    by simp
  show ?thesis by (intro conjI h1 h2 h3 c [THEN conjunct1] c [THEN conjunct2])
qed

text \<open>
  A fresh value that is not null does not always win: an empty \<^verbatim>\<open>country\<close> parameter
  gives way to the stored country.
\<close>

theorem fresh_empty_counterexample:
  "param_country example_env_empty_country = Some []
   \<and> stored_field (storedSourceContext example_env_empty_country) country = Some ''BR''
   \<and> country (sourceContext example_env_empty_country) = Some ''BR''"
  by (simp add: example_env_empty_country_def example_env_def sourceContext_def Let_def
      pick_def or_else_def truthy_str_def stored_field_def)

section \<open>Properties of the survey loader\<close>

text \<open>
  Claim C7. When the fetched survey is not active, the loader stores no structure, so
  the form never receives its questions, and sets the "not active" message alone, with
  no error status and no details.
\<close>

theorem inactive_survey_not_stored:
  assumes "s_ativo data = False"
  shows "structure (fetchStructure_settle (Inr data) now s) = None
       \<and> errorMessage (fetchStructure_settle (Inr data) now s) = Some msg_not_active
       \<and> errorStatus (fetchStructure_settle (Inr data) now s) = None
       \<and> errorDetails (fetchStructure_settle (Inr data) now s) = None
       \<and> (\<forall>p. render (fetchStructure_settle (Inr data) now s) = FormPage p \<longrightarrow>
             panel_form p = None \<and> panel_error p = Some (msg_not_active, None))"
  using assms
  by (auto simp: fetchStructure_settle_def render_def msg_not_active_def or_else_def truthy_str_def
      split: if_splits)

theorem inactive_survey_not_stored_witness:
  "s_ativo (example_survey 7 False) = False
   \<and> structure (fetchStructure_settle (Inr (example_survey 7 False)) 1000 (initialState (Some 7))) = None
   \<and> errorMessage (fetchStructure_settle (Inr (example_survey 7 False)) 1000 (initialState (Some 7)))
        = Some msg_not_active
   \<and> render (fetchStructure_settle (Inr (example_survey 7 False)) 1000 (initialState (Some 7)))
        = FormPage \<lparr> panel_loading = False, panel_form = None, panel_skeleton = False,
                     panel_success = None, panel_error = Some (msg_not_active, None) \<rparr>"
  using inactive_survey_not_stored [of "example_survey 7 False" 1000 "initialState (Some 7)"]
  by (simp add: example_defs render_def fetchStructure_settle_def)









section \<open>Properties of the submission controller\<close>

lemma not_truthy_num: "(\<not> truthy_num v) = (v = None \<or> v = Some 0)"
  by (cases v) (simp_all add: truthy_num_def)

lemma handleVote_rejected:
  assumes "handleVote_begin s = (s1, None)"
  shows "handleVote post env s w = \<lparr> a_state = s1, a_server = w, a_trace = [], a_persisted = None \<rparr>"
  using assms by (simp add: handleVote_def)

lemma handleVote_begin_unanswered:
  assumes "structure s = Some st" and "truthy_num (surveyId s)"
    and "\<exists>q \<in> set (s_questions st). \<not> truthy_num (selectedOptions s (q_id q))"
  shows "handleVote_begin s =
           (s\<lparr> errorMessage := Some msg_answer_all, errorDetails := None, errorStatus := None,
               missingQuestionIds :=
                 map q_id (filter (\<lambda>q. \<not> truthy_num (selectedOptions s (q_id q))) (s_questions st)) \<rparr>,
            None)"
proof -
  have "filter (\<lambda>q. \<not> truthy_num (selectedOptions s (q_id q))) (s_questions st) \<noteq> []"
    using assms(3) by (simp add: filter_empty_conv)
  then show ?thesis
    using assms(1,2) by (simp add: handleVote_begin_def Let_def)
qed

lemma requests_exchange:
  "length ps = length xs \<Longrightarrow> requests (exchange ps xs) = ps"
  by (induction ps xs rule: exchange.induct) simp_all

lemma length_replies: "length (replies post w ps) = length ps"
  by (induction ps arbitrary: w) (auto split: prod.splits)

lemma submit_loop_all_ok:
  "replies post w (map payload qs) = map Inr rs \<Longrightarrow>
     fst (submit_loop post payload qs acc w) = Inr (acc @ rs)
   \<and> snd (snd (submit_loop post payload qs acc w)) = exchange (map payload qs) (map Inr rs)"
proof (induction qs arbitrary: acc w rs)
  case Nil
  then show ?case by simp
next
  case (Cons q qs)
  obtain x w' where px: "post w (payload q) = (x, w')" by (cases "post w (payload q)")
  with Cons.prems obtain r rs' where rs: "rs = r # rs'" "x = Inr r"
    and rest: "replies post w' (map payload qs) = map Inr rs'"
    by (cases rs) auto
  from Cons.IH [OF rest, of "acc @ [r]"] px rs show ?case
    by (auto split: prod.splits)
qed

lemma submit_loop_fails:
  "replies post w (map payload (take k qs)) = map Inr rs @ [Inl err] \<Longrightarrow>
     fst (submit_loop post payload qs acc w) = Inl err
   \<and> snd (snd (submit_loop post payload qs acc w))
       = exchange (map payload (take k qs)) (map Inr rs @ [Inl err])"
proof (induction qs arbitrary: acc w rs k)
  case Nil
  then show ?case by simp
next
  case (Cons q qs)
  from Cons.prems obtain k' where k: "k = Suc k'" by (cases k) auto
  obtain x w' where px: "post w (payload q) = (x, w')" by (cases "post w (payload q)")
  show ?case
  proof (cases rs)
    case Nil
    with Cons.prems k px have x: "x = Inl err"
      and e: "replies post w' (map payload (take k' qs)) = []" by auto
    from arg_cong [OF e, of length] have "take k' qs = []"
      by (simp only: length_replies length_map list.size length_0_conv)
    with px k Nil x show ?thesis by simp
  next
    case (Cons r rs')
    with Cons.prems k px have x: "x = Inr r"
      and rest: "replies post w' (map payload (take k' qs)) = map Inr rs' @ [Inl err]"
      by auto
    from Cons.IH [OF rest, of "acc @ [r]"] px x k Cons show ?thesis
      by (auto split: prod.splits)
  qed
qed

lemma handleVote_begin_accepts:
  assumes "structure s = Some st" and "truthy_num (surveyId s)"
    and "\<forall>q \<in> set (s_questions st). truthy_num (selectedOptions s (q_id q))"
  shows "handleVote_begin s =
           (s\<lparr> submitting := True, errorMessage := None, errorDetails := None,
               voteResults := [], missingQuestionIds := [], showThankYou := False \<rparr>, Some st)"
proof -
  have "filter (\<lambda>q. \<not> truthy_num (selectedOptions s (q_id q))) (s_questions st) = []"
    using assms(3) by (simp add: filter_empty_conv)
  then show ?thesis
    using assms(1,2) by (simp add: handleVote_begin_def Let_def)
qed
lemma or_default_nonempty: "d \<noteq> [] \<Longrightarrow> or_default t d \<noteq> []"
  by (simp add: or_default_def)

lemma msg_vote_failed_nonempty: "msg_vote_failed \<noteq> []"
  by (simp add: msg_vote_failed_def)

lemma handleVote_accepted:
  assumes "handleVote_begin s = (s1, Some st)"
  shows "a_state (handleVote post env s w)
           = handleVote_settle (fst (submit_loop post (attempt_payload env s st) (s_questions st) [] w)) s1"
    and "a_trace (handleVote post env s w)
           = snd (snd (submit_loop post (attempt_payload env s st) (s_questions st) [] w))"
    and "a_persisted (handleVote post env s w)
           = (case fst (submit_loop post (attempt_payload env s st) (s_questions st) [] w) of
                Inr _ \<Rightarrow> Some (sourceContext env) | Inl _ \<Rightarrow> None)"
  using assms
  by (simp_all add: handleVote_def attempt_payload_def Let_def split: prod.splits)

text \<open>
  Claim C2, as the code has it. In an attempt over a loaded survey with a non-zero
  survey identifier in which some question has no selected option, no request is sent,
  the validation message is set, and the missing-question list holds, in survey order,
  the ids of the questions whose selection is absent or is the option id \<open>0\<close>. When no
  recorded selection is \<open>0\<close>, these are exactly the questions without a selection.
\<close>

theorem unanswered_rejected_locally:
  assumes "structure s = Some st" and "truthy_num (surveyId s)"
    and "\<exists>q \<in> set (s_questions st). selectedOptions s (q_id q) = None"
  shows "a_trace (handleVote post env s w) = []
       \<and> a_server (handleVote post env s w) = w
       \<and> errorMessage (a_state (handleVote post env s w)) = Some msg_answer_all
       \<and> missingQuestionIds (a_state (handleVote post env s w))
           = map q_id (filter (unanswered_or_zero (selectedOptions s)) (s_questions st))
       \<and> ((\<forall>q \<in> set (s_questions st). selectedOptions s (q_id q) \<noteq> Some 0) \<longrightarrow>
            missingQuestionIds (a_state (handleVote post env s w))
              = map q_id (filter (\<lambda>q. selectedOptions s (q_id q) = None) (s_questions st)))"
proof -
  from assms(3) have ex: "\<exists>q \<in> set (s_questions st). \<not> truthy_num (selectedOptions s (q_id q))"
    by (force simp: not_truthy_num)
  note b = handleVote_begin_unanswered [OF assms(1,2) ex]
  have f1: "filter (\<lambda>q. \<not> truthy_num (selectedOptions s (q_id q))) (s_questions st)
          = filter (unanswered_or_zero (selectedOptions s)) (s_questions st)"
    by (rule filter_cong) (simp_all add: not_truthy_num unanswered_or_zero_def)
  have f2: "(\<forall>q \<in> set (s_questions st). selectedOptions s (q_id q) \<noteq> Some 0) \<Longrightarrow>
      filter (unanswered_or_zero (selectedOptions s)) (s_questions st)
          = filter (\<lambda>q. selectedOptions s (q_id q) = None) (s_questions st)"
    by (rule filter_cong) (auto simp: unanswered_or_zero_def)
  show ?thesis
    using f2 by (simp add: handleVote_rejected [OF b] f1)
qed

theorem unanswered_rejected_locally_witness:
  "structure (example_state [2 \<mapsto> 5]) = Some (example_survey 7 True)
   \<and> truthy_num (surveyId (example_state [2 \<mapsto> 5]))
   \<and> (\<exists>q \<in> set (s_questions (example_survey 7 True)).
         selectedOptions (example_state [2 \<mapsto> 5]) (q_id q) = None)
   \<and> a_trace (handleVote server_ok example_env (example_state [2 \<mapsto> 5]) 0) = []
   \<and> errorMessage (a_state (handleVote server_ok example_env (example_state [2 \<mapsto> 5]) 0))
        = Some msg_answer_all
   \<and> missingQuestionIds (a_state (handleVote server_ok example_env (example_state [2 \<mapsto> 5]) 0))
        = [1]"
  using unanswered_rejected_locally
    [of "example_state [2 \<mapsto> 5]" "example_survey 7 True" server_ok example_env 0]
  by (simp add: example_defs truthy_num_def unanswered_or_zero_def)

text \<open>
  The list is not always the list of the questions without a selection: with question
  1 unanswered and option \<open>0\<close> selected for question 2, both ids are recorded.
\<close>

theorem unanswered_exactly_counterexample:
  "structure (example_state [2 \<mapsto> 0]) = Some (example_survey 7 True)
   \<and> missingQuestionIds (a_state (handleVote server_ok example_env (example_state [2 \<mapsto> 0]) 0))
        = [1, 2]
   \<and> map q_id (filter (\<lambda>q. selectedOptions (example_state [2 \<mapsto> 0]) (q_id q) = None)
                  (s_questions (example_survey 7 True))) = [1]"
  by (simp add: example_defs handleVote_def handleVote_begin_def truthy_num_def)

text \<open>
  Claim C10, as the code has it. In an attempt over a loaded survey with a non-zero
  survey identifier, a question whose recorded selection is the option id \<open>0\<close> counts
  as unanswered: the attempt is rejected with the validation message, the question's id
  is in the missing-question list, and no request is sent.
\<close>

theorem zero_selection_is_unanswered:
  assumes "structure s = Some st" and "truthy_num (surveyId s)"
    and "question \<in> set (s_questions st)"
    and "selectedOptions s (q_id question) = Some 0"
  shows "a_trace (handleVote post env s w) = []
       \<and> a_server (handleVote post env s w) = w
       \<and> a_persisted (handleVote post env s w) = None
       \<and> errorMessage (a_state (handleVote post env s w)) = Some msg_answer_all
       \<and> voteResults (a_state (handleVote post env s w)) = voteResults s
       \<and> q_id question \<in> set (missingQuestionIds (a_state (handleVote post env s w)))"
proof -
  have nt: "\<not> truthy_num (selectedOptions s (q_id question))"
    using assms(4) by (simp add: truthy_num_def)
  with assms(3) have ex: "\<exists>q \<in> set (s_questions st). \<not> truthy_num (selectedOptions s (q_id q))"
    by blast
  note b = handleVote_begin_unanswered [OF assms(1,2) ex]
  show ?thesis
    using assms(3) nt by (simp add: handleVote_rejected [OF b])
qed

theorem zero_selection_is_unanswered_witness:
  "structure (example_state [1 \<mapsto> 5, 2 \<mapsto> 0]) = Some (example_survey 7 True)
   \<and> truthy_num (surveyId (example_state [1 \<mapsto> 5, 2 \<mapsto> 0]))
   \<and> example_question 2 \<in> set (s_questions (example_survey 7 True))
   \<and> selectedOptions (example_state [1 \<mapsto> 5, 2 \<mapsto> 0]) (q_id (example_question 2)) = Some 0
   \<and> a_trace (handleVote server_ok example_env (example_state [1 \<mapsto> 5, 2 \<mapsto> 0]) 0) = []
   \<and> errorMessage (a_state (handleVote server_ok example_env (example_state [1 \<mapsto> 5, 2 \<mapsto> 0]) 0))
        = Some msg_answer_all
   \<and> q_id (example_question 2)
        \<in> set (missingQuestionIds
                 (a_state (handleVote server_ok example_env (example_state [1 \<mapsto> 5, 2 \<mapsto> 0]) 0)))"
  using zero_selection_is_unanswered
    [of "example_state [1 \<mapsto> 5, 2 \<mapsto> 0]" "example_survey 7 True" "example_question 2"
        server_ok example_env 0]
  by (simp add: example_defs truthy_num_def)

text \<open>
  Without a survey identifier the attempt stops at the first check: the structure of a
  response that arrived after the user left the survey path is on the form, option \<open>0\<close>
  is selected, and the attempt ends with the "select a question and an option" message
  and an empty missing-question list.
\<close>

theorem zero_selection_without_identifier_counterexample:
  "reachable example_stale
   \<and> surveyId (app example_stale) = None
   \<and> structure (app example_stale) = Some (example_survey 1 True)
   \<and> form_shown (render (app example_stale))
   \<and> example_question 2 \<in> set (s_questions (example_survey 1 True))
   \<and> selectedOptions (app example_stale) (q_id (example_question 2)) = Some 0
   \<and> a_trace (handleVote server_ok example_env (app example_stale) 0) = []
   \<and> errorMessage (a_state (handleVote server_ok example_env (app example_stale) 0))
        = Some msg_select_first
   \<and> msg_select_first \<noteq> msg_answer_all
   \<and> missingQuestionIds (a_state (handleVote server_ok example_env (app example_stale) 0)) = []"
proof -
  have r: "reachable example_stale"
    unfolding example_stale_def run_def foldl.simps by (intro reachable.intros)
  have a: "app example_stale =
      (initialState None)
        \<lparr> structure := Some (example_survey 1 True),
          selectedOptions := [2 \<mapsto> 0],
          voteStartedAtRef := Some 1000 \<rparr>"
    by (simp add: example_stale_def run_def loader_defs Let_def onChange_def example_survey_def)
  have rest: "surveyId (app example_stale) = None
   \<and> structure (app example_stale) = Some (example_survey 1 True)
   \<and> form_shown (render (app example_stale))
   \<and> example_question 2 \<in> set (s_questions (example_survey 1 True))
   \<and> selectedOptions (app example_stale) (q_id (example_question 2)) = Some 0
   \<and> a_trace (handleVote server_ok example_env (app example_stale) 0) = []
   \<and> errorMessage (a_state (handleVote server_ok example_env (app example_stale) 0))
        = Some msg_select_first
   \<and> msg_select_first \<noteq> msg_answer_all
   \<and> missingQuestionIds (a_state (handleVote server_ok example_env (app example_stale) 0)) = []"
    unfolding a
    by (simp add: initialState_def example_survey_def example_question_def render_def
        form_shown_def handleVote_def handleVote_begin_def truthy_num_def
        msg_select_first_def msg_answer_all_def)
  from r rest show ?thesis by simp
qed

text \<open>
  Claim C3. In an attempt that passed the checks and whose \<open>N\<close> requests all succeed,
  exactly \<open>N\<close> requests are sent, one per question in question order, each after the
  response to the one before it; the stored result list is the list of the \<open>N\<close>
  responses in that order, the context is persisted and the thank-you screen is shown.
\<close>

theorem successful_attempt_sequential:
  assumes "structure s = Some st" and "truthy_num (surveyId s)"
    and "\<forall>q \<in> set (s_questions st). truthy_num (selectedOptions s (q_id q))"
    and "replies post w (map (attempt_payload env s st) (s_questions st)) = map Inr rs"
  shows "a_trace (handleVote post env s w)
           = exchange (map (attempt_payload env s st) (s_questions st)) (map Inr rs)
       \<and> requests (a_trace (handleVote post env s w))
           = map (attempt_payload env s st) (s_questions st)
       \<and> length (requests (a_trace (handleVote post env s w))) = length (s_questions st)
       \<and> map p_questionId (requests (a_trace (handleVote post env s w)))
           = map q_id (s_questions st)
       \<and> voteResults (a_state (handleVote post env s w)) = rs
       \<and> length (voteResults (a_state (handleVote post env s w))) = length (s_questions st)
       \<and> showThankYou (a_state (handleVote post env s w))
       \<and> a_persisted (handleVote post env s w) = Some (sourceContext env)
       \<and> render (a_state (handleVote post env s w)) = ThankYouPage"
proof -
  let ?pl = "attempt_payload env s st"
  note b = handleVote_begin_accepts [OF assms(1,2,3)]
  note l = submit_loop_all_ok [OF assms(4), of "[]"]
  note h = handleVote_accepted [OF b, of post env w]
  have len: "length (map ?pl (s_questions st)) = length (map Inr rs :: (ApiError + VoteResponse) list)"
    using arg_cong [OF assms(4), of length] by (simp add: length_replies)
  have tr: "a_trace (handleVote post env s w) = exchange (map ?pl (s_questions st)) (map Inr rs)"
    using h(2) l by simp
  have rq: "requests (a_trace (handleVote post env s w)) = map ?pl (s_questions st)"
    using requests_exchange [OF len] by (simp add: tr)
  have ids: "map p_questionId (map ?pl (s_questions st)) = map q_id (s_questions st)"
    by (simp add: attempt_payload_questionId)
  have st': "a_state (handleVote post env s w) = handleVote_settle (Inr rs)
     (s\<lparr> submitting := True, errorMessage := None, errorDetails := None,
               voteResults := [], missingQuestionIds := [], showThankYou := False \<rparr>)"
    using h(1) l by simp
  have pe: "a_persisted (handleVote post env s w) = Some (sourceContext env)"
    using h(3) l by simp
  have lrs: "length rs = length (s_questions st)" using len by simp
  show ?thesis
    by (simp add: tr [symmetric] rq attempt_payload_questionId pe lrs st'
        handleVote_settle_def render_def)
qed

theorem successful_attempt_sequential_witness:
  "structure (example_state [1 \<mapsto> 5, 2 \<mapsto> 5]) = Some (example_survey 7 True)
   \<and> truthy_num (surveyId (example_state [1 \<mapsto> 5, 2 \<mapsto> 5]))
   \<and> list_all (\<lambda>q. truthy_num (selectedOptions (example_state [1 \<mapsto> 5, 2 \<mapsto> 5]) (q_id q)))
         (s_questions (example_survey 7 True))
   \<and> replies server_ok 0
        (map (attempt_payload example_env (example_state [1 \<mapsto> 5, 2 \<mapsto> 5]) (example_survey 7 True))
           (s_questions (example_survey 7 True)))
       = map Inr [\<lparr> voteId = 0, sessionId = None, antifraudToken = None \<rparr>,
                  \<lparr> voteId = 1, sessionId = None, antifraudToken = None \<rparr>]
   \<and> map p_questionId (requests (a_trace (handleVote server_ok example_env
                 (example_state [1 \<mapsto> 5, 2 \<mapsto> 5]) 0))) = [1, 2]
   \<and> voteResults (a_state (handleVote server_ok example_env
                 (example_state [1 \<mapsto> 5, 2 \<mapsto> 5]) 0))
       = [\<lparr> voteId = 0, sessionId = None, antifraudToken = None \<rparr>,
          \<lparr> voteId = 1, sessionId = None, antifraudToken = None \<rparr>]
   \<and> render (a_state (handleVote server_ok example_env
                 (example_state [1 \<mapsto> 5, 2 \<mapsto> 5]) 0)) = ThankYouPage"
proof -
  have h1: "structure (example_state [1 \<mapsto> 5, 2 \<mapsto> 5]) = Some (example_survey 7 True)"
    by (simp add: example_defs)
  have h2: "truthy_num (surveyId (example_state [1 \<mapsto> 5, 2 \<mapsto> 5]))"
    by (simp add: example_defs truthy_num_def)
  have h3: "\<forall>q \<in> set (s_questions (example_survey 7 True)).
         truthy_num (selectedOptions (example_state [1 \<mapsto> 5, 2 \<mapsto> 5]) (q_id q))"
    by (simp add: example_defs truthy_num_def)
  have h3': "list_all (\<lambda>q. truthy_num (selectedOptions (example_state [1 \<mapsto> 5, 2 \<mapsto> 5]) (q_id q)))
         (s_questions (example_survey 7 True))"
    using h3 by (simp add: list_all_iff)
  have h4: "replies server_ok 0
        (map (attempt_payload example_env (example_state [1 \<mapsto> 5, 2 \<mapsto> 5]) (example_survey 7 True))
           (s_questions (example_survey 7 True)))
       = map Inr [\<lparr> voteId = 0, sessionId = None, antifraudToken = None \<rparr>,
                  \<lparr> voteId = 1, sessionId = None, antifraudToken = None \<rparr>]"
    by (simp add: example_defs server_ok_def)
  note t = successful_attempt_sequential [OF h1 h2 h3 h4]
  have e: "map q_id (s_questions (example_survey 7 True)) = [1, 2]"
    by (simp add: example_defs)
  from t have c1: "map p_questionId (requests (a_trace (handleVote server_ok example_env
                 (example_state [1 \<mapsto> 5, 2 \<mapsto> 5]) 0)))
                = map q_id (s_questions (example_survey 7 True))"
    by (elim conjE)
  from t have c2: "voteResults (a_state (handleVote server_ok example_env
                 (example_state [1 \<mapsto> 5, 2 \<mapsto> 5]) 0))
       = [\<lparr> voteId = 0, sessionId = None, antifraudToken = None \<rparr>,
          \<lparr> voteId = 1, sessionId = None, antifraudToken = None \<rparr>]"
    by (elim conjE)
  from t have c3: "render (a_state (handleVote server_ok example_env
                 (example_state [1 \<mapsto> 5, 2 \<mapsto> 5]) 0)) = ThankYouPage"
    by (elim conjE)
  show ?thesis
    by (intro conjI h1 h2 h3' h4 c1 [unfolded e] c2 c3)
qed

text \<open>
  Claim C1. In an attempt that passed the checks, if the \<open>k\<close>-th vote request
  (\<open>1 \<le> k \<le> N\<close>) fails after the requests before it succeeded, the attempt stops at
  once: exactly \<open>k\<close> requests were sent. The results of the earlier requests are not
  stored (the result list is empty, nothing is persisted, the thank-you screen is off),
  and one error is shown: the error message is set and non-empty, and the view is the
  not-found screen or the form with the error panel and without the success panel.
\<close>

theorem failed_request_discards_results:
  assumes "structure s = Some st" and "truthy_num (surveyId s)"
    and "\<forall>q \<in> set (s_questions st). truthy_num (selectedOptions s (q_id q))"
    and "1 \<le> k" and "k \<le> length (s_questions st)"
    and "replies post w (map (attempt_payload env s st) (take k (s_questions st)))
           = map Inr rs @ [Inl err]"
  shows "a_trace (handleVote post env s w)
           = exchange (map (attempt_payload env s st) (take k (s_questions st)))
               (map Inr rs @ [Inl err])
       \<and> length (requests (a_trace (handleVote post env s w))) = k
       \<and> length rs = k - 1
       \<and> voteResults (a_state (handleVote post env s w)) = []
       \<and> showThankYou (a_state (handleVote post env s w)) = False
       \<and> a_persisted (handleVote post env s w) = None
       \<and> errorMessage (a_state (handleVote post env s w))
           = Some (or_default (e_message (mapApiErrorMessage err)) msg_vote_failed)
       \<and> or_default (e_message (mapApiErrorMessage err)) msg_vote_failed \<noteq> []
       \<and> \<not> success_shown (render (a_state (handleVote post env s w)))
       \<and> (is_NotFound (render (a_state (handleVote post env s w)))
          \<or> is_FormError (render (a_state (handleVote post env s w))))"
proof -
  let ?pl = "attempt_payload env s st"
  note b = handleVote_begin_accepts [OF assms(1,2,3)]
  note l = submit_loop_fails [OF assms(6), of "[]"]
  note h = handleVote_accepted [OF b, of post env w]
  have len: "length (map ?pl (take k (s_questions st))) = length (map Inr rs @ [Inl err] :: (ApiError + VoteResponse) list)"
    using arg_cong [OF assms(6), of length] by (simp add: length_replies)
  have lk: "length (take k (s_questions st)) = k" using assms(5) by simp
  have ne: "or_default (e_message (mapApiErrorMessage err)) msg_vote_failed \<noteq> []"
    by (rule or_default_nonempty [OF msg_vote_failed_nonempty])
  have tr: "a_trace (handleVote post env s w)
           = exchange (map ?pl (take k (s_questions st))) (map Inr rs @ [Inl err])"
    using h(2) l by simp
  have st': "a_state (handleVote post env s w) = handleVote_settle (Inl err)
     (s\<lparr> submitting := True, errorMessage := None, errorDetails := None,
               voteResults := [], missingQuestionIds := [], showThankYou := False \<rparr>)"
    using h(1) l by simp
  have rq: "length (requests (a_trace (handleVote post env s w))) = k"
    using requests_exchange [OF len] lk by (simp add: tr)
  have lrs: "length rs = k - 1" using len lk by simp
  have pe: "a_persisted (handleVote post env s w) = None" using h(3) l by simp
  show ?thesis
    using ne
    by (simp add: tr [symmetric] rq lrs pe st' handleVote_settle_def Let_def render_def
        success_shown_def is_NotFound_def is_FormError_def form_shown_def error_shown_def)
qed

theorem failed_request_discards_results_witness:
  "structure (example_state [1 \<mapsto> 5, 2 \<mapsto> 5]) = Some (example_survey 7 True)
   \<and> truthy_num (surveyId (example_state [1 \<mapsto> 5, 2 \<mapsto> 5]))
   \<and> list_all (\<lambda>q. truthy_num (selectedOptions (example_state [1 \<mapsto> 5, 2 \<mapsto> 5]) (q_id q)))
         (s_questions (example_survey 7 True))
   \<and> (1::nat) \<le> 2 \<and> 2 \<le> length (s_questions (example_survey 7 True))
   \<and> replies server_once 0
        (map (attempt_payload example_env (example_state [1 \<mapsto> 5, 2 \<mapsto> 5]) (example_survey 7 True))
           (take 2 (s_questions (example_survey 7 True))))
       = map Inr [\<lparr> voteId = 1, sessionId = None, antifraudToken = None \<rparr>]
           @ [Inl \<lparr> e_status = Some 500, e_message = ''boom'', e_details = None \<rparr>]
   \<and> length (requests (a_trace (handleVote server_once example_env
                 (example_state [1 \<mapsto> 5, 2 \<mapsto> 5]) 0))) = 2
   \<and> voteResults (a_state (handleVote server_once example_env
                 (example_state [1 \<mapsto> 5, 2 \<mapsto> 5]) 0)) = []
   \<and> errorMessage (a_state (handleVote server_once example_env
                 (example_state [1 \<mapsto> 5, 2 \<mapsto> 5]) 0)) = Some ''boom''
   \<and> is_FormError (render (a_state (handleVote server_once example_env
                 (example_state [1 \<mapsto> 5, 2 \<mapsto> 5]) 0)))"
proof -
  have h1: "structure (example_state [1 \<mapsto> 5, 2 \<mapsto> 5]) = Some (example_survey 7 True)"
    by (simp add: example_defs)
  have h2: "truthy_num (surveyId (example_state [1 \<mapsto> 5, 2 \<mapsto> 5]))"
    by (simp add: example_defs truthy_num_def)
  have h3: "\<forall>q \<in> set (s_questions (example_survey 7 True)).
         truthy_num (selectedOptions (example_state [1 \<mapsto> 5, 2 \<mapsto> 5]) (q_id q))"
    by (simp add: example_defs truthy_num_def)
  have h4: "(1::nat) \<le> 2" by simp
  have h5: "2 \<le> length (s_questions (example_survey 7 True))"
    by (simp add: example_defs)
  have h6: "replies server_once 0
        (map (attempt_payload example_env (example_state [1 \<mapsto> 5, 2 \<mapsto> 5]) (example_survey 7 True))
           (take 2 (s_questions (example_survey 7 True))))
       = map Inr [\<lparr> voteId = 1, sessionId = None, antifraudToken = None \<rparr>]
           @ [Inl \<lparr> e_status = Some 500, e_message = ''boom'', e_details = None \<rparr>]"
    by (simp add: example_defs server_once_def)
  have m: "or_default (e_message (mapApiErrorMessage
             \<lparr> e_status = Some 500, e_message = ''boom'', e_details = None \<rparr>)) msg_vote_failed
           = ''boom''"
    by (simp add: mapApiErrorMessage_def or_default_def toLowerCase_def toLowerCaseChar_def
        pat_already_voted_def)
  have nf: "\<not> is_NotFound (render (a_state (handleVote server_once example_env
                 (example_state [1 \<mapsto> 5, 2 \<mapsto> 5]) 0)))"
    by (simp add: handleVote_accepted(1) [OF handleVote_begin_accepts [OF h1 h2 h3]]
        submit_loop_fails [OF h6] handleVote_settle_def mapApiErrorMessage_def toLowerCase_def
        toLowerCaseChar_def pat_already_voted_def is_NotFound_def render_def)
  have h3': "list_all (\<lambda>q. truthy_num (selectedOptions (example_state [1 \<mapsto> 5, 2 \<mapsto> 5]) (q_id q)))
         (s_questions (example_survey 7 True))"
    using h3 by (simp add: list_all_iff)
  note t = failed_request_discards_results [OF h1 h2 h3 h4 h5 h6]
  show ?thesis
    apply (intro conjI h1 h2 h3' h4 h5 h6)
    using t m nf by (simp_all add: example_defs)
qed

section \<open>Properties of the failure messages\<close>

lemma not_found_text_mentions_expiry: "str_includes (toLowerCase msg_not_found) ''expirada''"
  by (simp add: msg_not_found_def toLowerCase_def toLowerCaseChar_def)

lemma not_found_text_not_already_voted:
  "\<not> str_includes (toLowerCase msg_not_found) pat_already_voted"
  by (simp add: msg_not_found_def toLowerCase_def toLowerCaseChar_def pat_already_voted_def)

lemma mapApiErrorMessage_not_found:
  "e_status e = Some 404 \<Longrightarrow> e_message e = msg_not_found \<Longrightarrow>
     mapApiErrorMessage e = e\<lparr> e_message := msg_expired \<rparr>"
  by (simp add: mapApiErrorMessage_def Let_def not_found_text_mentions_expiry
      not_found_text_not_already_voted)

lemma apiFetch_404:
  "r_status r = 404 \<Longrightarrow>
     apiFetch toStr r = Inl \<lparr> e_status = Some 404, e_message = msg_not_found,
                              e_details = error_details toStr (r_payload r) \<rparr>"
  by (simp add: apiFetch_def r_ok_def error_message_def)







text \<open>
  On a 404 the message cell itself holds the "expired" text: the client throws the
  not-found text, and \<^verbatim>\<open>mapApiErrorMessage\<close> finds \<^verbatim>\<open>expirada\<close> inside it. The
  cell is not rendered while the status is 404.
\<close>

lemma vote_404_stored_message:
  assumes "structure s = Some st" and "truthy_num (surveyId s)"
    and "\<forall>q \<in> set (s_questions st). truthy_num (selectedOptions s (q_id q))"
    and "r_status r = 404" and "apiFetch toStr r = Inl e"
    and "replies post w (map (attempt_payload env s st) (take k (s_questions st)))
           = map Inr rs @ [Inl e]"
  shows "e_message e = msg_not_found
       \<and> errorMessage (a_state (handleVote post env s w)) = Some msg_expired
       \<and> errorStatus (a_state (handleVote post env s w)) = Some 404
       \<and> render (a_state (handleVote post env s w)) = NotFoundPage
       \<and> msg_expired \<noteq> msg_not_found"
proof -
  note b = handleVote_begin_accepts [OF assms(1,2,3)]
  note l = submit_loop_fails [OF assms(6), of "[]"]
  note h = handleVote_accepted [OF b, of post env w]
  from apiFetch_404 [OF assms(4), of toStr] assms(5)
  have e: "e_status e = Some 404" "e_message e = msg_not_found" by auto
  have st': "a_state (handleVote post env s w) = handleVote_settle (Inl e)
     (s\<lparr> submitting := True, errorMessage := None, errorDetails := None,
               voteResults := [], missingQuestionIds := [], showThankYou := False \<rparr>)"
    using h(1) l by simp
  have ne: "msg_expired \<noteq> msg_not_found"
    by (simp add: msg_expired_def msg_not_found_def)
  have x: "msg_expired \<noteq> []" by (simp add: msg_expired_def)
  show ?thesis
    using e ne x
    by (simp add: st' handleVote_settle_def mapApiErrorMessage_not_found [OF e] or_default_def
        render_def)
qed

text \<open>
  For every other failing status the stored message is as the mapping says: 429 gives
  the "too many requests" text; 409, or a message that mentions an earlier vote, the
  "already voted" text; a message that mentions expiry, the "expired" text; anything
  else the thrown message unchanged.
\<close>

lemma error_message_nonempty: "error_message st payload \<noteq> []"
  by (simp add: error_message_def or_default_def msg_not_found_def msg_action_failed_def
      split: option.splits)

lemma vote_failure_message_mapping:
  assumes "\<not> r_ok r" and "apiFetch toStr r = Inl e" and "r_status r \<noteq> 404"
  shows "errorMessage (handleVote_settle (Inl e) s) =
           Some (if r_status r = 429 then msg_too_many
                 else if str_includes (toLowerCase (e_message e)) pat_already_voted
                         \<or> r_status r = 409 then msg_already_voted
                 else if str_includes (toLowerCase (e_message e)) ''expirada'' then msg_expired
                 else e_message e)"
proof -
  from assms(1,2) have e: "e_status e = Some (r_status r)"
    "e_message e = error_message (r_status r) (r_payload r)"
    by (auto simp: apiFetch_def)
  have ne: "e_message e \<noteq> []" by (simp add: e(2) error_message_nonempty)
  show ?thesis
    using ne
    by (simp add: handleVote_settle_def mapApiErrorMessage_def Let_def e(1) or_default_def
        msg_too_many_def msg_already_voted_def msg_expired_def)
qed

section \<open>Properties of the view\<close>

lemma reachable_results_imply_thanks:
  "reachable sys \<Longrightarrow> voteResults (app sys) \<noteq> [] \<longrightarrow> showThankYou (app sys)"
proof (induction rule: reachable.induct)
  case (reachable_mount pathId)
  show ?case
    by (simp add: mount_def surveyId_effect_def fetchStructure_begin_def initialState_def
        split: option.splits)
next
  case (reachable_step sys e)
  then show ?case
  proof (cases e)
    case (Popstate pathId)
    then show ?thesis
      by (simp add: Let_def handlePopstate_def surveyId_effect_def fetchStructure_begin_def
          split: option.splits)
  next
    case (StructureSettled k outcome now)
    with reachable_step.IH show ?thesis
      by (simp add: fetchStructure_settle_def Let_def split: sum.splits)
  next
    case (OptionChange q opt)
    then show ?thesis by (simp add: onChange_def)
  next
    case VoteClick
    with reachable_step.IH show ?thesis
      by (auto simp: handleVote_begin_def Let_def split: option.splits if_splits)
  next
    case (VoteSettled outcome)
    with reachable_step.IH show ?thesis
      by (simp add: handleVote_settle_def Let_def split: sum.splits)
  qed
qed

lemma active_outcomes_one:
  "\<not> (success_shown v \<and> error_shown v) \<Longrightarrow> active_outcomes v = 1"
  by (cases v)
     (auto simp: active_outcomes_def is_NotFound_def is_ThankYou_def is_FormError_def
        is_FormSuccess_def is_FormNeutral_def form_shown_def success_shown_def error_shown_def)

text \<open>
  The result list is non-empty only while the thank-you screen is on, so the form never
  shows the success panel.
\<close>

lemma success_panel_never_shown:
  assumes "reachable sys"
  shows "\<not> success_shown (render (app sys))"
  using reachable_results_imply_thanks [OF assms]
  by (auto simp: success_shown_def render_def)

text \<open>
  Claim C9. In every reachable state exactly one of the five outcomes of the view is
  active. The success panel and the error panel are never shown together, and the
  not-found and thank-you screens show no form and no panel.
\<close>

theorem view_outcomes_exclusive:
  assumes "reachable sys"
  shows "active_outcomes (render (app sys)) = 1
       \<and> \<not> (success_shown (render (app sys)) \<and> error_shown (render (app sys)))
       \<and> (is_NotFound (render (app sys)) \<or> is_ThankYou (render (app sys)) \<longrightarrow>
            \<not> form_shown (render (app sys)) \<and> \<not> success_shown (render (app sys))
            \<and> \<not> error_shown (render (app sys)))"
proof -
  from reachable_results_imply_thanks [OF assms]
  have ns: "\<not> success_shown (render (app sys))"
    by (auto simp: success_shown_def render_def)
  then have ex: "\<not> (success_shown (render (app sys)) \<and> error_shown (render (app sys)))"
    by simp
  have scr: "is_NotFound (render (app sys)) \<or> is_ThankYou (render (app sys)) \<longrightarrow>
            \<not> form_shown (render (app sys)) \<and> \<not> success_shown (render (app sys))
            \<and> \<not> error_shown (render (app sys))"
    by (auto simp: is_NotFound_def is_ThankYou_def form_shown_def success_shown_def
        error_shown_def)
  from active_outcomes_one [OF ex] ex scr show ?thesis by blast
qed

theorem view_outcomes_exclusive_witness:
  "reachable example_loaded
   \<and> active_outcomes (render (app example_loaded)) = 1
   \<and> is_FormNeutral (render (app example_loaded))"
proof -
  have r: "reachable example_loaded"
    unfolding example_loaded_def by (intro reachable.intros)
  have n: "is_FormNeutral (render (app example_loaded))"
    by (simp add: example_loaded_def mount_def surveyId_effect_def fetchStructure_begin_def
        initialState_def truthy_num_def fetchStructure_settle_def example_survey_def
        render_def is_FormNeutral_def form_shown_def success_shown_def error_shown_def)
  from view_outcomes_exclusive [OF r] r n show ?thesis by simp
qed

end
